theory Spec2Isabelle
  imports Main "HOL-Library.Char_ord" "HOL-Library.List_Lexorder"
begin

section \<open>flake8-docstrings: the pydocstyle plugin of Flake8\<close>

text \<open>
  A shallow embedding of \<^verbatim>\<open>flake8_docstrings.py\<close>. The docstring checker itself
  (\<^verbatim>\<open>pydocstyle\<close>, or the legacy \<^verbatim>\<open>pep257\<close>) is outside the repository: the module
  object the source binds to the name \<^verbatim>\<open>pep257\<close> is a parameter of the model, and so are
  the two built-ins of Python the source calls on text, \<^verbatim>\<open>int\<close> and \<^verbatim>\<open>re.compile\<close>.
\<close>

subsection \<open>Exceptions and generators\<close>

text \<open>
  The exceptions that can leave the code, each with the text \<^verbatim>\<open>str(err)\<close> gives (for
  \<open>AttributeError\<close> and \<open>KeyError\<close>: the attribute and the key that are missing).
  \<open>Pep257_AllError\<close> is the delegate's \<^verbatim>\<open>pep257.AllError\<close> or a subclass of it, \<open>OSError\<close>
  is \<^verbatim>\<open>OSError\<close> or a subclass of it, \<open>OtherException\<close> is any exception that is none
  of the others.
\<close>

datatype py_exception =
    ImportError string
  | ValueError string
  | ReError string
  | AttributeError string
  | KeyError string
  | Pep257_AllError string
  | OSError string
  | OtherException string

text \<open>
  A generator that has been run to its end: the items it yielded, in order, and the
  exception that ended it, if one did.
\<close>

type_synonym 'a generator = "'a list \<times> py_exception option"

subsection \<open>Text helpers of Python\<close>

text \<open>\<^verbatim>\<open>s.split(sep)\<close> for a separator of one character.\<close>

fun split :: "char \<Rightarrow> string \<Rightarrow> string list" where
  "split sep [] = [[]]"
| "split sep (c # cs) =
     (if c = sep then [] # split sep cs
      else (case split sep cs of
              [] \<Rightarrow> [[c]]
            | w # ws \<Rightarrow> (c # w) # ws))"

text \<open>\<^verbatim>\<open>s.partition("\n")[0]\<close>: the text before the first line feed, all of it when there is none.\<close>

definition partition_head :: "string \<Rightarrow> string" where
  "partition_head s = takeWhile (\<lambda>c. c \<noteq> CHR 0x0A) s"


subsection \<open>Capability probe (module level)\<close>


record module_state =
  supports_ignore_inline_noqa :: bool
  supports_property_decorators :: bool
  supports_ignore_self_only_init :: bool
  "module_name" :: string
  backend_version :: string







subsection \<open>The delegate library\<close>

text \<open>\<^verbatim>\<open>pep257.Error\<close>, as far as the plugin reads it.\<close>

record pep257_Error =
  code :: string
  short_desc :: string
  line :: int

text \<open>What the delegate's generator yields: an instance of \<^verbatim>\<open>pep257.Error\<close>, or anything else.\<close>

datatype delegate_item = ErrorObj pep257_Error | OtherObj

text \<open>A compiled pattern, \<^verbatim>\<open>re.compile(s)\<close>.\<close>

datatype regex = Regex string

text \<open>\<open>re_valid s\<close> says that \<^verbatim>\<open>re\<close> accepts the pattern; otherwise \<^verbatim>\<open>re.compile\<close> raises \<^verbatim>\<open>re.error\<close>.\<close>

definition re_compile :: "(string \<Rightarrow> bool) \<Rightarrow> string \<Rightarrow> py_exception + regex" where
  "re_compile re_valid s = (if re_valid s then Inr (Regex s) else Inl (ReError s))"

datatype kwarg_value = BoolVal bool | StrSetVal "string set" | NoneVal

text \<open>One call of \<^verbatim>\<open>checker.check_source\<close>: two positional arguments and the keywords.\<close>

record check_source_call =
  arg_source :: string
  arg_filename :: string
  arg_ignore_decorators :: "regex option"
  arg_kwargs :: "string \<rightharpoonup> kwarg_value"

text \<open>
  The module bound to \<^verbatim>\<open>pep257\<close>: the dictionary \<^verbatim>\<open>conventions\<close> (in its iteration
  order), \<^verbatim>\<open>ConventionChecker().check_source\<close> as the run of its generator, and
  \<^verbatim>\<open>ConfigurationParser.DEFAULT_PROPERTY_DECORATORS\<close>.
\<close>

record backend =
  conventions :: "(string \<times> string set) list"
  checker_check_source :: "check_source_call \<Rightarrow> delegate_item generator"
  DEFAULT_PROPERTY_DECORATORS :: string

subsection \<open>The synthetic errors\<close>

definition EnvironError :: "string \<Rightarrow> pep257_Error" where
  "EnvironError err = \<lparr> code = ''D998'', short_desc = ''EnvironmentError: '' @ err, line = 0 \<rparr>"

definition AllError :: "string \<Rightarrow> pep257_Error" where
  "AllError err = \<lparr> code = ''D999'', short_desc = partition_head err, line = 0 \<rparr>"

subsection \<open>The checker class\<close>

text \<open>
  The attributes \<^verbatim>\<open>parse_options\<close> sets on the class; \<open>None\<close> is an attribute that has
  not been set. \<open>Some None\<close> is an attribute set to Python's \<^verbatim>\<open>None\<close>.
\<close>

record pep257Checker_class =
  convention :: "string option"
  ignore_decorators :: "regex option option"
  property_decorators :: "string option option"
  ignore_self_only_init :: "bool option"

text \<open>The class as the class statement leaves it.\<close>

definition unconfigured :: pep257Checker_class where
  "unconfigured = \<lparr> convention = None, ignore_decorators = None,
                    property_decorators = None, ignore_self_only_init = None \<rparr>"

datatype convention_checker = ConventionChecker

record 'tree pep257Checker =
  tree :: 'tree
  filename :: string
  checker :: convention_checker
  source :: string

datatype checker_type = Pep257Checker_type

definition name :: string where
  "name = ''flake8-docstrings''"

definition version :: "module_state \<Rightarrow> string" where
  "version M = ''1.7.0'' @ '', '' @ module_name M @ '': '' @ backend_version M"

definition init :: "'tree \<Rightarrow> string \<Rightarrow> string list \<Rightarrow> 'tree pep257Checker" where
  "init t fname lines =
     \<lparr> tree = t, filename = fname, checker = ConventionChecker, source = concat lines \<rparr>"

subsection \<open>Option declaration\<close>

record option_decl =
  opt_name :: string
  opt_action :: string
  opt_parse_from_config :: bool
  opt_default :: "string option"
  opt_choices :: "string list option"

definition add_options :: "module_state \<Rightarrow> backend \<Rightarrow> option_decl list \<Rightarrow> option_decl list" where
  "add_options M B parser =
     parser
     @ [\<lparr> opt_name = ''--docstring-convention'', opt_action = ''store'',
           opt_parse_from_config = True, opt_default = Some ''pep257'',
           opt_choices = Some (sort (map fst (conventions B)) @ [''all'']) \<rparr>,
        \<lparr> opt_name = ''--ignore-decorators'', opt_action = ''store'',
           opt_parse_from_config = True, opt_default = None, opt_choices = None \<rparr>]
     @ (if supports_property_decorators M
        then [\<lparr> opt_name = ''--property-decorators'', opt_action = ''store'',
                 opt_parse_from_config = True,
                 opt_default = Some (DEFAULT_PROPERTY_DECORATORS B), opt_choices = None \<rparr>]
        else [])
     @ (if supports_ignore_self_only_init M
        then [\<lparr> opt_name = ''--ignore-self-only-init'', opt_action = ''store_true'',
                 opt_parse_from_config = True, opt_default = None, opt_choices = None \<rparr>]
        else [])"

subsection \<open>Option binding\<close>

text \<open>The values Flake8 hands over; \<open>None\<close> is Python's \<^verbatim>\<open>None\<close>.\<close>

record options =
  docstring_convention :: string
  opt_ignore_decorators :: "string option"
  opt_property_decorators :: "string option"
  opt_ignore_self_only_init :: bool

text \<open>
  The class after the call, and the exception that ended the call if one did. The
  convention is assigned before the pattern is compiled, so it is stored also when
  \<^verbatim>\<open>re.compile\<close> raises.
\<close>

definition parse_options ::
  "(string \<Rightarrow> bool) \<Rightarrow> module_state \<Rightarrow> pep257Checker_class \<Rightarrow> options
     \<Rightarrow> pep257Checker_class \<times> py_exception option" where
  "parse_options re_valid M cls opts =
     (let cls1 = cls\<lparr> convention := Some (docstring_convention opts) \<rparr>;
          compiled =
            (case opt_ignore_decorators opts of
               None \<Rightarrow> Inr None
             | Some s \<Rightarrow>
                 if s \<noteq> []
                 then (case re_compile re_valid s of Inl e \<Rightarrow> Inl e | Inr r \<Rightarrow> Inr (Some r))
                 else Inr None)
      in case compiled of
           Inl e \<Rightarrow> (cls1, Some e)
         | Inr pat \<Rightarrow>
             (let cls2 = cls1\<lparr> ignore_decorators := Some pat \<rparr>;
                  cls3 = (if supports_property_decorators M
                          then cls2\<lparr> property_decorators := Some (opt_property_decorators opts) \<rparr>
                          else cls2);
                  cls4 = (if supports_ignore_self_only_init M
                          then cls3\<lparr> ignore_self_only_init := Some (opt_ignore_self_only_init opts) \<rparr>
                          else cls3)
              in (cls4, None)))"

subsection \<open>Per-file execution\<close>

text \<open>
  The keyword dictionary \<^verbatim>\<open>_call_check_source\<close> builds. Reading an attribute that
  neither the instance nor the class has raises \<^verbatim>\<open>AttributeError\<close>.
\<close>

definition check_source_kwargs ::
  "module_state \<Rightarrow> pep257Checker_class \<Rightarrow> py_exception + (string \<rightharpoonup> kwarg_value)" where
  "check_source_kwargs M cls =
     (let kw0 = Map.empty;
          kw1 = (if supports_ignore_inline_noqa M
                 then kw0(''ignore_inline_noqa'' \<mapsto> BoolVal True) else kw0)
      in case (if supports_property_decorators M
               then (case property_decorators cls of
                       None \<Rightarrow> Inl (AttributeError ''property_decorators'')
                     | Some pd \<Rightarrow>
                         Inr (kw1(''property_decorators'' \<mapsto>
                                (case pd of
                                   None \<Rightarrow> NoneVal
                                 | Some s \<Rightarrow>
                                     if s \<noteq> [] then StrSetVal (set (split CHR '','' s))
                                     else NoneVal))))
               else Inr kw1) of
           Inl e \<Rightarrow> Inl e
         | Inr kw2 \<Rightarrow>
             (if supports_ignore_self_only_init M
              then (case ignore_self_only_init cls of
                      None \<Rightarrow> Inl (AttributeError ''ignore_self_only_init'')
                    | Some b \<Rightarrow> Inr (kw2(''ignore_self_only_init'' \<mapsto> BoolVal b)))
              else Inr kw2))"

text \<open>The arguments of the call \<^verbatim>\<open>_call_check_source\<close> makes, when it gets as far as the call.\<close>

definition check_source_args ::
  "module_state \<Rightarrow> pep257Checker_class \<Rightarrow> 'tree pep257Checker
     \<Rightarrow> py_exception + check_source_call" where
  "check_source_args M cls self =
     (case check_source_kwargs M cls of
        Inl e \<Rightarrow> Inl e
      | Inr kw \<Rightarrow>
          Inr \<lparr> arg_source = source self,
                arg_filename = filename self,
                arg_ignore_decorators =
                  (case ignore_decorators cls of None \<Rightarrow> None | Some pat \<Rightarrow> pat),
                arg_kwargs = kw \<rparr>)"

definition call_check_source ::
  "module_state \<Rightarrow> backend \<Rightarrow> pep257Checker_class \<Rightarrow> 'tree pep257Checker
     \<Rightarrow> delegate_item generator" where
  "call_check_source M B cls self =
     (case check_source_args M cls self of
        Inl e \<Rightarrow> ([], Some e)
      | Inr call \<Rightarrow> checker_check_source B call)"

text \<open>
  \<^verbatim>\<open>_check_source\<close>: the delegate's items pass through; its \<^verbatim>\<open>AllError\<close> and an
  \<^verbatim>\<open>OSError\<close> end the sequence with one synthetic error; any other exception leaves.
\<close>

definition check_source ::
  "module_state \<Rightarrow> backend \<Rightarrow> pep257Checker_class \<Rightarrow> 'tree pep257Checker
     \<Rightarrow> delegate_item generator" where
  "check_source M B cls self =
     (case call_check_source M B cls self of
        (errs, None) \<Rightarrow> (errs, None)
      | (errs, Some (Pep257_AllError err)) \<Rightarrow> (errs @ [ErrorObj (AllError err)], None)
      | (errs, Some (OSError err)) \<Rightarrow> (errs @ [ErrorObj (EnvironError err)], None)
      | (errs, Some e) \<Rightarrow> (errs, Some e))"

text \<open>The object \<^verbatim>\<open>run\<close> tests membership in: \<^verbatim>\<open>_ContainsAll()\<close> or a set of codes.\<close>

datatype code_container = ContainsAll | CodeSet "string set"

fun contains :: "code_container \<Rightarrow> string \<Rightarrow> bool" where
  "contains ContainsAll c = True"
| "contains (CodeSet s) c = (c \<in> s)"

text \<open>
  The first statement of \<^verbatim>\<open>run\<close>. \<^verbatim>\<open>pep257.conventions[name]\<close> raises \<^verbatim>\<open>KeyError\<close>
  for a name the delegate does not know.
\<close>

definition checked_codes :: "backend \<Rightarrow> pep257Checker_class \<Rightarrow> py_exception + code_container" where
  "checked_codes B cls =
     (case convention cls of
        Some c \<Rightarrow>
          if c = ''all'' then Inr ContainsAll
          else (case map_of (conventions B) c of
                  None \<Rightarrow> Inl (KeyError c)
                | Some s \<Rightarrow> Inr (CodeSet (s \<union> {''D998'', ''D999''})))
      | None \<Rightarrow> Inr (CodeSet {''D998'', ''D999''}))"

type_synonym report = "int \<times> int \<times> string \<times> checker_type"

definition report_tuple :: "pep257_Error \<Rightarrow> report" where
  "report_tuple error = (line error, 0, code error @ '' '' @ short_desc error, Pep257Checker_type)"

text \<open>The loop of \<^verbatim>\<open>run\<close> over the items of \<^verbatim>\<open>_check_source\<close>.\<close>

fun run_loop :: "code_container \<Rightarrow> delegate_item list \<Rightarrow> report list" where
  "run_loop cc [] = []"
| "run_loop cc (OtherObj # items) = run_loop cc items"
| "run_loop cc (ErrorObj error # items) =
     (if contains cc (code error) then report_tuple error # run_loop cc items
      else run_loop cc items)"

definition run ::
  "module_state \<Rightarrow> backend \<Rightarrow> pep257Checker_class \<Rightarrow> 'tree pep257Checker
     \<Rightarrow> report generator" where
  "run M B cls self =
     (case checked_codes B cls of
        Inl e \<Rightarrow> ([], Some e)
      | Inr cc \<Rightarrow>
          (case check_source M B cls self of
             (items, exc) \<Rightarrow> (run_loop cc items, exc)))"

subsection \<open>Auxiliary notions and example data\<close>

text \<open>The instances of \<^verbatim>\<open>pep257.Error\<close> among the items of a sequence, in order.\<close>

fun errors_of :: "delegate_item list \<Rightarrow> pep257_Error list" where
  "errors_of [] = []"
| "errors_of (OtherObj # items) = errors_of items"
| "errors_of (ErrorObj error # items) = error # errors_of items"

text \<open>Two module states: pydocstyle 6.2.0 and the legacy library.\<close>

definition module_620 :: module_state where
  "module_620 =
     \<lparr> supports_ignore_inline_noqa = True, supports_property_decorators = True,
       supports_ignore_self_only_init = False, module_name = ''pydocstyle'',
       backend_version = ''6.2.0'' \<rparr>"

definition module_legacy :: module_state where
  "module_legacy =
     \<lparr> supports_ignore_inline_noqa = False, supports_property_decorators = False,
       supports_ignore_self_only_init = False, module_name = ''pep257'',
       backend_version = ''0.7.0'' \<rparr>"

definition D103 :: pep257_Error where
  "D103 = \<lparr> code = ''D103'', short_desc = ''Missing docstring in public function'', line = 2 \<rparr>"

definition D203 :: pep257_Error where
  "D203 = \<lparr> code = ''D203'', short_desc = ''1 blank line required before class docstring'',
            line = 7 \<rparr>"

text \<open>
  A delegate that fails on two file names (an unreadable file, a file with a bad
  \<^verbatim>\<open>__all__\<close>) and reports two errors and a foreign object on every other file.
\<close>

definition backend_demo :: backend where
  "backend_demo =
     \<lparr> conventions = [(''pep257'', {''D100'', ''D103''})],
       checker_check_source =
         (\<lambda>call. if arg_filename call = ''unreadable.py'' then ([], Some (OSError ''denied''))
                  else if arg_filename call = ''dunder_all.py''
                  then ([ErrorObj D103],
                        Some (Pep257_AllError (''bad __all__'' @ [CHR 0x0A] @ ''details'')))
                  else ([ErrorObj D103, OtherObj, ErrorObj D203], None)),
       DEFAULT_PROPERTY_DECORATORS = ''property,cached_property'' \<rparr>"

definition cls_pep257 :: pep257Checker_class where
  "cls_pep257 = \<lparr> convention = Some ''pep257'', ignore_decorators = Some None,
                  property_decorators = None, ignore_self_only_init = None \<rparr>"

definition cls_all :: pep257Checker_class where
  "cls_all = \<lparr> convention = Some ''all'', ignore_decorators = Some None,
               property_decorators = None, ignore_self_only_init = None \<rparr>"

definition hello :: "unit pep257Checker" where
  "hello = init () ''hello.py'' [''def hello_world():'', ''    pass'']"

definition unreadable :: "unit pep257Checker" where
  "unreadable = init () ''unreadable.py'' [''x = 1'']"

definition dunder_all :: "unit pep257Checker" where
  "dunder_all = init () ''dunder_all.py'' [''__all__ = 1'']"

text \<open>Option values as Flake8 would hand them over, and a stand-in for the validity of a pattern.\<close>

definition opts_demo :: options where
  "opts_demo = \<lparr> docstring_convention = ''pep257'', opt_ignore_decorators = Some ''overload'',
                 opt_property_decorators = Some ''property,cached_property'',
                 opt_ignore_self_only_init = False \<rparr>"

definition opts_empty :: options where
  "opts_empty = opts_demo \<lparr> opt_ignore_decorators := Some [] \<rparr>"

definition opts_absent :: options where
  "opts_absent = opts_demo \<lparr> opt_ignore_decorators := None \<rparr>"

definition opts_malformed :: options where
  "opts_malformed = opts_demo \<lparr> opt_ignore_decorators := Some ''(x'' \<rparr>"

definition re_valid_demo :: "string \<Rightarrow> bool" where
  "re_valid_demo s = (CHR ''('' \<notin> set s)"

definition cls_620 :: pep257Checker_class where
  "cls_620 = fst (parse_options re_valid_demo module_620 unconfigured opts_demo)"

text \<open>
  Two module states have the same capability flags. The other two fields are read by
  the \<open>version\<close> attribute only.
\<close>

definition same_flags :: "module_state \<Rightarrow> module_state \<Rightarrow> bool" where
  "same_flags M1 M2 \<longleftrightarrow>
     supports_ignore_inline_noqa M1 = supports_ignore_inline_noqa M2
   \<and> supports_property_decorators M1 = supports_property_decorators M2
   \<and> supports_ignore_self_only_init M1 = supports_ignore_self_only_init M2"

text \<open>
  A second module state with no flag set, a second delegate that differs from
  \<open>backend_demo\<close> except on \<^verbatim>\<open>hello.py\<close> and the \<open>pep257\<close> convention, and a delegate
  that fails on every file.
\<close>

definition module_511 :: module_state where
  "module_511 =
     \<lparr> supports_ignore_inline_noqa = False, supports_property_decorators = False,
       supports_ignore_self_only_init = False, module_name = ''pydocstyle'',
       backend_version = ''5.1.1'' \<rparr>"

definition backend_later :: backend where
  "backend_later =
     \<lparr> conventions = [(''numpy'', {''D100''}), (''pep257'', {''D100'', ''D103''})],
       checker_check_source =
         (\<lambda>call. if arg_filename call = ''hello.py''
                  then ([ErrorObj D103, OtherObj, ErrorObj D203], None)
                  else ([], Some (OtherException ''crash''))),
       DEFAULT_PROPERTY_DECORATORS = ''property'' \<rparr>"

definition backend_flaky :: backend where
  "backend_flaky =
     backend_demo \<lparr> checker_check_source := (\<lambda>call. ([], Some (OSError ''busy''))) \<rparr>"

section \<open>Properties\<close>

subsection \<open>Helper lemmas\<close>


lemma triple_le:
  "[p, q, r] \<le> [a, b, c :: int] \<longleftrightarrow> p < a \<or> p = a \<and> (q < b \<or> q = b \<and> r \<le> c)"
  by auto




lemma errors_of_set: "e \<in> set (errors_of items) \<longleftrightarrow> ErrorObj e \<in> set items"
  by (induction items rule: errors_of.induct) auto

lemma run_loop_filter:
  "run_loop cc items = map report_tuple (filter (\<lambda>e. contains cc (code e)) (errors_of items))"
  by (induction cc items rule: run_loop.induct) auto

lemma run_loop_append: "run_loop cc (xs @ ys) = run_loop cc xs @ run_loop cc ys"
  by (induction cc xs rule: run_loop.induct) auto

lemma check_source_items:
  "\<exists>extra. fst (check_source M B cls self) = fst (call_check_source M B cls self) @ extra"
  by (auto simp: check_source_def split: prod.splits option.splits py_exception.splits)

lemma run_items:
  "checked_codes B cls = Inr cc \<Longrightarrow>
   fst (run M B cls self) = run_loop cc (fst (check_source M B cls self))"
  by (simp add: run_def split: prod.splits)

lemma checked_codes_synthetic:
  "checked_codes B cls = Inr cc \<Longrightarrow> contains cc ''D998'' \<and> contains cc ''D999''"
  by (auto simp: checked_codes_def split: option.splits if_splits)

lemma run_demo_pep257:
  "run module_legacy backend_demo cls_pep257 hello = ([report_tuple D103], None)"
  by (simp add: run_def checked_codes_def cls_pep257_def backend_demo_def check_source_def
      call_check_source_def check_source_args_def check_source_kwargs_def module_legacy_def
      hello_def init_def D103_def D203_def)

lemma run_demo_all:
  "run module_legacy backend_demo cls_all hello = ([report_tuple D103, report_tuple D203], None)"
  by (simp add: run_def checked_codes_def cls_all_def backend_demo_def check_source_def
      call_check_source_def check_source_args_def check_source_kwargs_def module_legacy_def
      hello_def init_def D103_def D203_def)

lemma partition_head_spec:
  "CHR 0x0A \<notin> set (partition_head s)
   \<and> (s = partition_head s \<or> (\<exists>rest. s = partition_head s @ CHR 0x0A # rest))"
proof -
  have a: "CHR 0x0A \<notin> set (takeWhile (\<lambda>c. c \<noteq> CHR 0x0A) s)"
    by (auto dest: set_takeWhileD)
  have b: "s = takeWhile (\<lambda>c. c \<noteq> CHR 0x0A) s
         \<or> (\<exists>rest. s = takeWhile (\<lambda>c. c \<noteq> CHR 0x0A) s @ CHR 0x0A # rest)"
  proof (cases "dropWhile (\<lambda>c. c \<noteq> CHR 0x0A) s")
    case Nil
    then show ?thesis
      by (metis append_Nil2 takeWhile_dropWhile_id)
  next
    case (Cons c cs)
    then have "c = CHR 0x0A"
      by (metis (mono_tags, lifting) hd_dropWhile list.sel(1) list.distinct(1))
    with Cons show ?thesis
      by (metis takeWhile_dropWhile_id)
  qed
  from a b show ?thesis by (simp add: partition_head_def)
qed

lemma run_unconfigured_unreadable:
  "run module_legacy backend_demo unconfigured unreadable
     = ([(0, 0, ''D998 EnvironmentError: denied'', Pep257Checker_type)], None)"
  by (simp add: run_def checked_codes_def unconfigured_def backend_demo_def check_source_def
      call_check_source_def check_source_args_def check_source_kwargs_def module_legacy_def
      unreadable_def init_def report_tuple_def EnvironError_def)

lemma run_pep257_dunder_all:
  "run module_legacy backend_demo cls_pep257 dunder_all
     = ([report_tuple D103, (0, 0, ''D999 bad __all__'', Pep257Checker_type)], None)"
  by (simp add: run_def checked_codes_def cls_pep257_def backend_demo_def check_source_def
      call_check_source_def check_source_args_def check_source_kwargs_def module_legacy_def
      dunder_all_def init_def report_tuple_def AllError_def partition_head_def D103_def)

lemma kwargs_dom:
  "check_source_kwargs M cls = Inr kw \<Longrightarrow>
   dom kw = (if supports_ignore_inline_noqa M then {''ignore_inline_noqa''} else {})
          \<union> (if supports_property_decorators M then {''property_decorators''} else {})
          \<union> (if supports_ignore_self_only_init M then {''ignore_self_only_init''} else {})"
  by (auto simp: check_source_kwargs_def Let_def split: if_splits option.splits sum.splits)

lemma cls_620_eq:
  "cls_620 = \<lparr> convention = Some ''pep257'', ignore_decorators = Some (Some (Regex ''overload'')),
               property_decorators = Some (Some ''property,cached_property''),
               ignore_self_only_init = None \<rparr>"
  by (simp add: cls_620_def parse_options_def opts_demo_def re_valid_demo_def re_compile_def
      module_620_def unconfigured_def)

lemma args_620:
  "check_source_args module_620 cls_620 hello
     = Inr \<lparr> arg_source = ''def hello_world():    pass'', arg_filename = ''hello.py'',
             arg_ignore_decorators = Some (Regex ''overload''),
             arg_kwargs = [''ignore_inline_noqa'' \<mapsto> BoolVal True,
                           ''property_decorators'' \<mapsto> StrSetVal {''property'', ''cached_property''}] \<rparr>"
  by (simp add: cls_620_eq check_source_args_def check_source_kwargs_def module_620_def
      hello_def init_def insert_commute)

lemma parse_options_then_call:
  assumes "parse_options re_valid M cls opts = (cls', None)"
  shows "\<exists>kw. check_source_args M cls' self
           = Inr \<lparr> arg_source = source self, arg_filename = filename self,
                   arg_ignore_decorators =
                     (case opt_ignore_decorators opts of
                        None \<Rightarrow> None
                      | Some s \<Rightarrow> if s = [] then None else Some (Regex s)),
                   arg_kwargs = kw \<rparr>"
  using assms
  by (cases "supports_property_decorators M"; cases "supports_ignore_self_only_init M";
      cases "opt_ignore_decorators opts")
     (auto simp: parse_options_def re_compile_def Let_def check_source_args_def
        check_source_kwargs_def split: if_splits)

lemma check_source_kwargs_flags:
  assumes "same_flags M1 M2"
  shows "check_source_kwargs M1 cls = check_source_kwargs M2 cls"
proof -
  from assms have a: "supports_ignore_inline_noqa M1 = supports_ignore_inline_noqa M2"
    and b: "supports_property_decorators M1 = supports_property_decorators M2"
    and c: "supports_ignore_self_only_init M1 = supports_ignore_self_only_init M2"
    by (simp_all add: same_flags_def)
  show ?thesis unfolding check_source_kwargs_def a b c by (rule refl)
qed

lemma check_source_args_same:
  assumes "same_flags M1 M2"
  shows "check_source_args M1 cls (init tree1 fname lines)
           = check_source_args M2 cls (init tree2 fname lines)"
  by (cases "check_source_kwargs M2 cls")
     (simp_all add: check_source_args_def init_def check_source_kwargs_flags [OF assms])

lemma checked_codes_same:
  assumes "\<forall>c. convention cls = Some c \<longrightarrow> map_of (conventions B1) c = map_of (conventions B2) c"
  shows "checked_codes B1 cls = checked_codes B2 cls"
proof (cases "convention cls")
  case None
  then show ?thesis by (simp add: checked_codes_def)
next
  case (Some c)
  with assms have "map_of (conventions B1) c = map_of (conventions B2) c" by simp
  with Some show ?thesis by (simp add: checked_codes_def)
qed

lemma call_check_source_same:
  assumes flags: "same_flags M1 M2"
    and answer: "\<forall>call. check_source_args M1 cls (init tree1 fname lines) = Inr call
                   \<longrightarrow> checker_check_source B1 call = checker_check_source B2 call"
  shows "call_check_source M1 B1 cls (init tree1 fname lines)
           = call_check_source M2 B2 cls (init tree2 fname lines)"
proof (cases "check_source_args M1 cls (init tree1 fname lines)")
  case (Inl e)
  moreover from Inl have "check_source_args M2 cls (init tree2 fname lines) = Inl e"
    using check_source_args_same [OF flags, of cls tree1 fname lines tree2] by simp
  ultimately show ?thesis by (simp add: call_check_source_def)
next
  case (Inr call)
  moreover from Inr have "check_source_args M2 cls (init tree2 fname lines) = Inr call"
    using check_source_args_same [OF flags, of cls tree1 fname lines tree2] by simp
  moreover from Inr answer have "checker_check_source B1 call = checker_check_source B2 call"
    by simp
  ultimately show ?thesis by (simp add: call_check_source_def)
qed

lemma run_demo_first:
  "run module_legacy backend_demo cls_pep257
       (init ''ast_a'' ''hello.py'' [''def hello_world():'', ''    pass''])
     = ([(2, 0, ''D103 Missing docstring in public function'', Pep257Checker_type)], None)"
  by (simp add: run_def checked_codes_def cls_pep257_def backend_demo_def check_source_def
      call_check_source_def check_source_args_def check_source_kwargs_def module_legacy_def
      init_def D103_def D203_def report_tuple_def)

lemma run_flaky:
  "run module_legacy backend_flaky cls_pep257
       (init ''ast_a'' ''hello.py'' [''def hello_world():'', ''    pass''])
     = ([(0, 0, ''D998 EnvironmentError: busy'', Pep257Checker_type)], None)"
  by (simp add: run_def checked_codes_def cls_pep257_def backend_demo_def backend_flaky_def
      check_source_def call_check_source_def check_source_args_def check_source_kwargs_def
      module_legacy_def init_def report_tuple_def EnvironError_def)

lemma run_depends_on_delegate_answer:
  "run module_legacy backend_demo cls_pep257
       (init ''ast_a'' ''hello.py'' [''def hello_world():'', ''    pass''])
   \<noteq> run module_legacy backend_flaky cls_pep257
       (init ''ast_a'' ''hello.py'' [''def hello_world():'', ''    pass''])"
  unfolding run_demo_first run_flaky by simp


subsection \<open>Convention filtering\<close>

text \<open>
  Claim C1. Let a convention \<open>C\<close> be bound on the class. If \<open>C\<close> is not \<open>all\<close> and the
  delegate knows it, with code set \<open>codes\<close>, then the records \<open>run\<close> yields are exactly the
  reports of those errors of \<open>_check_source\<close> whose code is in \<open>codes \<union> {D998, D999}\<close>, so
  every yielded record carries such a code. If \<open>C\<close> is \<open>all\<close>, nothing is filtered by
  code: every error of \<open>_check_source\<close> is reported, in order, and so every error the
  delegate produced is among the reports.
\<close>

theorem run_reports_within_convention:
  assumes "convention cls = Some C"
  shows "if C = ''all''
         then fst (run M B cls self)
                = map report_tuple (errors_of (fst (check_source M B cls self)))
            \<and> (\<forall>e. ErrorObj e \<in> set (fst (call_check_source M B cls self))
                   \<longrightarrow> report_tuple e \<in> set (fst (run M B cls self)))
         else (\<forall>codes. map_of (conventions B) C = Some codes \<longrightarrow>
                 fst (run M B cls self)
                   = map report_tuple
                       (filter (\<lambda>e. code e \<in> codes \<union> {''D998'', ''D999''})
                          (errors_of (fst (check_source M B cls self))))
               \<and> (\<forall>r \<in> set (fst (run M B cls self)).
                     \<exists>e. r = report_tuple e \<and> code e \<in> codes \<union> {''D998'', ''D999''}))"
proof (cases "C = ''all''")
  case True
  with assms have cc: "checked_codes B cls = Inr ContainsAll"
    by (simp add: checked_codes_def)
  have eq: "fst (run M B cls self) = map report_tuple (errors_of (fst (check_source M B cls self)))"
    by (simp add: run_items [OF cc] run_loop_filter)
  have "report_tuple e \<in> set (fst (run M B cls self))"
    if "ErrorObj e \<in> set (fst (call_check_source M B cls self))" for e
  proof -
    obtain extra where
      "fst (check_source M B cls self) = fst (call_check_source M B cls self) @ extra"
      using check_source_items by blast
    with that have "ErrorObj e \<in> set (fst (check_source M B cls self))" by simp
    then show ?thesis by (simp add: eq errors_of_set)
  qed
  with eq True show ?thesis by simp
next
  case False
  have "fst (run M B cls self)
          = map report_tuple
              (filter (\<lambda>e. code e \<in> codes \<union> {''D998'', ''D999''})
                 (errors_of (fst (check_source M B cls self))))
      \<and> (\<forall>r \<in> set (fst (run M B cls self)).
            \<exists>e. r = report_tuple e \<and> code e \<in> codes \<union> {''D998'', ''D999''})"
    if known: "map_of (conventions B) C = Some codes" for codes
  proof -
    from assms False known
    have cc: "checked_codes B cls = Inr (CodeSet (codes \<union> {''D998'', ''D999''}))"
      by (simp add: checked_codes_def)
    have eq: "fst (run M B cls self)
          = map report_tuple
              (filter (\<lambda>e. code e \<in> codes \<union> {''D998'', ''D999''})
                 (errors_of (fst (check_source M B cls self))))"
      by (simp add: run_items [OF cc] run_loop_filter)
    show ?thesis
      by (rule conjI [OF eq]) (auto simp: eq)
  qed
  with False show ?thesis by simp
qed

theorem run_reports_within_convention_witness:
  "convention cls_pep257 = Some ''pep257''
   \<and> map_of (conventions backend_demo) ''pep257'' = Some {''D100'', ''D103''}
   \<and> fst (run module_legacy backend_demo cls_pep257 hello) = [report_tuple D103]
   \<and> (\<exists>e. report_tuple D103 = report_tuple e
          \<and> code e \<in> {''D100'', ''D103''} \<union> {''D998'', ''D999''})
   \<and> convention cls_all = Some ''all''
   \<and> fst (run module_legacy backend_demo cls_all hello)
       = [report_tuple D103, report_tuple D203]"
proof -
  have c1: "convention cls_pep257 = Some ''pep257''" by (simp add: cls_pep257_def)
  have c2: "convention cls_all = Some ''all''" by (simp add: cls_all_def)
  have m: "map_of (conventions backend_demo) ''pep257'' = Some {''D100'', ''D103''}"
    by (simp add: backend_demo_def)
  note t1 = run_reports_within_convention [OF c1, of module_legacy backend_demo hello]
  note t2 = run_reports_within_convention [OF c2, of module_legacy backend_demo hello]
  from t1 m have
    "\<forall>r \<in> set (fst (run module_legacy backend_demo cls_pep257 hello)).
        \<exists>e. r = report_tuple e \<and> code e \<in> {''D100'', ''D103''} \<union> {''D998'', ''D999''}"
    by simp
  then have "\<exists>e. report_tuple D103 = report_tuple e
          \<and> code e \<in> {''D100'', ''D103''} \<union> {''D998'', ''D999''}"
    by (simp add: run_demo_pep257)
  with t2 c1 c2 m show ?thesis
    by (simp add: run_demo_pep257 run_demo_all)
qed

subsection \<open>Capability flags\<close>



subsection \<open>The unconfigured class\<close>

text \<open>
  Claim C2. On a class on which \<open>parse_options\<close> was never called, the codes eligible for
  reporting are exactly \<open>D998\<close> and \<open>D999\<close>, and every record \<open>run\<close> yields, on any
  instance and with any delegate, is the report of an error with one of these two codes.
\<close>

theorem unconfigured_only_synthetic_codes:
  "checked_codes B unconfigured = Inr (CodeSet {''D998'', ''D999''})
   \<and> (\<forall>r \<in> set (fst (run M B unconfigured self)).
         \<exists>e. r = report_tuple e \<and> (code e = ''D998'' \<or> code e = ''D999''))"
proof -
  have cc: "checked_codes B unconfigured = Inr (CodeSet {''D998'', ''D999''})"
    by (simp add: checked_codes_def unconfigured_def)
  show ?thesis
    by (rule conjI [OF cc]) (auto simp: run_items [OF cc] run_loop_filter)
qed

theorem unconfigured_only_synthetic_codes_witness:
  "fst (run module_legacy backend_demo unconfigured unreadable)
     = [(0, 0, ''D998 EnvironmentError: denied'', Pep257Checker_type)]
   \<and> (\<exists>e. (0, 0, ''D998 EnvironmentError: denied'', Pep257Checker_type) = report_tuple e
          \<and> (code e = ''D998'' \<or> code e = ''D999''))
   \<and> fst (run module_legacy backend_demo unconfigured hello) = []"
proof -
  have "\<forall>r \<in> set (fst (run module_legacy backend_demo unconfigured unreadable)).
         \<exists>e. r = report_tuple e \<and> (code e = ''D998'' \<or> code e = ''D999'')"
    using unconfigured_only_synthetic_codes [of backend_demo module_legacy unreadable] by simp
  then have "\<exists>e. (0, 0, ''D998 EnvironmentError: denied'', Pep257Checker_type) = report_tuple e
          \<and> (code e = ''D998'' \<or> code e = ''D999'')"
    by (simp add: run_unconfigured_unreadable)
  moreover have "fst (run module_legacy backend_demo unconfigured hello) = []"
    by (simp add: run_def checked_codes_def unconfigured_def backend_demo_def check_source_def
      call_check_source_def check_source_args_def check_source_kwargs_def module_legacy_def
      hello_def init_def D103_def D203_def)
  ultimately show ?thesis by (simp add: run_unconfigured_unreadable)
qed

subsection \<open>Failures of the delegate\<close>

text \<open>
  Claim C3. When \<open>run\<close> has reached the delegate (the checked codes were computed and the
  call was made) and the delegate, after yielding \<open>items\<close>, raises its aggregate failure
  with message \<open>msg\<close>, then \<open>run\<close> ends normally and the failure is its last record, one
  record only: line 0, column 0, code \<open>D999\<close>, and as message the text of \<open>msg\<close> before
  its first line feed.
\<close>

theorem aggregate_failure_one_record:
  assumes "checked_codes B cls = Inr cc"
    and "check_source_args M cls self = Inr call"
    and "checker_check_source B call = (items, Some (Pep257_AllError msg))"
  shows "\<exists>first.
           run M B cls self
             = (run_loop cc items @ [(0, 0, ''D999 '' @ first, Pep257Checker_type)], None)
         \<and> CHR 0x0A \<notin> set first
         \<and> (msg = first \<or> (\<exists>rest. msg = first @ CHR 0x0A # rest))"
proof -
  from assms(2,3)
  have "check_source M B cls self = (items @ [ErrorObj (AllError msg)], None)"
    by (simp add: check_source_def call_check_source_def)
  with assms(1) checked_codes_synthetic [OF assms(1)]
  have "run M B cls self
          = (run_loop cc items @ [(0, 0, ''D999 '' @ partition_head msg, Pep257Checker_type)], None)"
    by (simp add: run_def run_loop_append AllError_def report_tuple_def)
  with partition_head_spec [of msg] show ?thesis by blast
qed

theorem aggregate_failure_one_record_witness:
  "checked_codes backend_demo cls_pep257
     = Inr (CodeSet ({''D100'', ''D103''} \<union> {''D998'', ''D999''}))
   \<and> checker_check_source backend_demo
         \<lparr> arg_source = ''__all__ = 1'', arg_filename = ''dunder_all.py'',
           arg_ignore_decorators = None, arg_kwargs = Map.empty \<rparr>
       = ([ErrorObj D103], Some (Pep257_AllError (''bad __all__'' @ [CHR 0x0A] @ ''details'')))
   \<and> run module_legacy backend_demo cls_pep257 dunder_all
       = ([report_tuple D103, (0, 0, ''D999 bad __all__'', Pep257Checker_type)], None)"
proof -
  have cc: "checked_codes backend_demo cls_pep257
              = Inr (CodeSet ({''D100'', ''D103''} \<union> {''D998'', ''D999''}))"
    by (simp add: checked_codes_def cls_pep257_def backend_demo_def)
  have args: "check_source_args module_legacy cls_pep257 dunder_all
                = Inr \<lparr> arg_source = ''__all__ = 1'', arg_filename = ''dunder_all.py'',
                        arg_ignore_decorators = None, arg_kwargs = Map.empty \<rparr>"
    by (simp add: check_source_args_def check_source_kwargs_def module_legacy_def
        cls_pep257_def dunder_all_def init_def)
  have raised: "checker_check_source backend_demo
                  \<lparr> arg_source = ''__all__ = 1'', arg_filename = ''dunder_all.py'',
                    arg_ignore_decorators = None, arg_kwargs = Map.empty \<rparr>
                = ([ErrorObj D103],
                   Some (Pep257_AllError (''bad __all__'' @ [CHR 0x0A] @ ''details'')))"
    by (simp add: backend_demo_def)
  from aggregate_failure_one_record [OF cc args raised] cc raised run_pep257_dunder_all
  show ?thesis by simp
qed

text \<open>
  Claim C4. When \<open>run\<close> has reached the delegate and the delegate, after yielding
  \<open>items\<close>, raises an \<open>OSError\<close> whose string form is \<open>msg\<close>, then \<open>run\<close> ends normally
  and the failure is its last record, one record only: line 0, column 0, code \<open>D998\<close>,
  and the message \<open>EnvironmentError: \<close> followed by \<open>msg\<close>.
\<close>

theorem io_failure_one_record:
  assumes "checked_codes B cls = Inr cc"
    and "check_source_args M cls self = Inr call"
    and "checker_check_source B call = (items, Some (OSError msg))"
  shows "run M B cls self
           = (run_loop cc items
                @ [(0, 0, ''D998 '' @ ''EnvironmentError: '' @ msg, Pep257Checker_type)], None)"
proof -
  from assms(2,3)
  have "check_source M B cls self = (items @ [ErrorObj (EnvironError msg)], None)"
    by (simp add: check_source_def call_check_source_def)
  with assms(1) checked_codes_synthetic [OF assms(1)]
  show ?thesis
    by (simp add: run_def run_loop_append EnvironError_def report_tuple_def)
qed

theorem io_failure_one_record_witness:
  "run module_legacy backend_demo unconfigured unreadable
     = ([(0, 0, ''D998 EnvironmentError: denied'', Pep257Checker_type)], None)"
proof -
  have cc: "checked_codes backend_demo unconfigured = Inr (CodeSet {''D998'', ''D999''})"
    by (simp add: checked_codes_def unconfigured_def)
  have args: "check_source_args module_legacy unconfigured unreadable
                = Inr \<lparr> arg_source = ''x = 1'', arg_filename = ''unreadable.py'',
                        arg_ignore_decorators = None, arg_kwargs = Map.empty \<rparr>"
    by (simp add: check_source_args_def check_source_kwargs_def module_legacy_def
        unconfigured_def unreadable_def init_def)
  have raised: "checker_check_source backend_demo
                  \<lparr> arg_source = ''x = 1'', arg_filename = ''unreadable.py'',
                    arg_ignore_decorators = None, arg_kwargs = Map.empty \<rparr>
                = ([], Some (OSError ''denied''))"
    by (simp add: backend_demo_def)
  from io_failure_one_record [OF cc args raised] show ?thesis by simp
qed

subsection \<open>The call of the delegate\<close>

text \<open>
  Claim C6. Whenever \<open>_call_check_source\<close> calls the delegate, the keywords of the call
  beside \<open>ignore_decorators\<close> are exactly those whose capability flag is set; the
  \<open>ignore_decorators\<close> argument is always passed, with the pattern stored on the class
  or \<open>None\<close>. The options \<open>--property-decorators\<close> and \<open>--ignore-self-only-init\<close> are
  declared under the same two flags.
\<close>

theorem call_keywords_gated:
  assumes "check_source_args M cls self = Inr call"
  shows "dom (arg_kwargs call)
           = (if supports_ignore_inline_noqa M then {''ignore_inline_noqa''} else {})
           \<union> (if supports_property_decorators M then {''property_decorators''} else {})
           \<union> (if supports_ignore_self_only_init M then {''ignore_self_only_init''} else {})
       \<and> arg_ignore_decorators call
           = (case ignore_decorators cls of None \<Rightarrow> None | Some pat \<Rightarrow> pat)
       \<and> call_check_source M B cls self = checker_check_source B call
       \<and> (''--property-decorators'' \<in> opt_name ` set (add_options M B []))
           = supports_property_decorators M
       \<and> (''--ignore-self-only-init'' \<in> opt_name ` set (add_options M B []))
           = supports_ignore_self_only_init M"
proof -
  from assms obtain kw where kw: "check_source_kwargs M cls = Inr kw"
    and call: "call = \<lparr> arg_source = source self, arg_filename = filename self,
                arg_ignore_decorators =
                  (case ignore_decorators cls of None \<Rightarrow> None | Some pat \<Rightarrow> pat),
                arg_kwargs = kw \<rparr>"
    by (auto simp: check_source_args_def split: sum.splits)
  have d: "dom (arg_kwargs call)
           = (if supports_ignore_inline_noqa M then {''ignore_inline_noqa''} else {})
           \<union> (if supports_property_decorators M then {''property_decorators''} else {})
           \<union> (if supports_ignore_self_only_init M then {''ignore_self_only_init''} else {})"
    using kwargs_dom [OF kw] call by simp
  have i: "arg_ignore_decorators call
           = (case ignore_decorators cls of None \<Rightarrow> None | Some pat \<Rightarrow> pat)"
    using call by simp
  have c: "call_check_source M B cls self = checker_check_source B call"
    using assms by (simp add: call_check_source_def)
  have p: "(''--property-decorators'' \<in> opt_name ` set (add_options M B []))
           = supports_property_decorators M"
    by (cases "supports_property_decorators M"; cases "supports_ignore_self_only_init M")
       (simp_all add: add_options_def)
  have s: "(''--ignore-self-only-init'' \<in> opt_name ` set (add_options M B []))
           = supports_ignore_self_only_init M"
    by (cases "supports_property_decorators M"; cases "supports_ignore_self_only_init M")
       (simp_all add: add_options_def)
  from d i c p s show ?thesis by blast
qed

theorem call_keywords_gated_witness:
  "check_source_args module_620 cls_620 hello
     = Inr \<lparr> arg_source = ''def hello_world():    pass'', arg_filename = ''hello.py'',
             arg_ignore_decorators = Some (Regex ''overload''),
             arg_kwargs = [''ignore_inline_noqa'' \<mapsto> BoolVal True,
                           ''property_decorators'' \<mapsto> StrSetVal {''property'', ''cached_property''}] \<rparr>
   \<and> dom [''ignore_inline_noqa'' \<mapsto> BoolVal True,
          ''property_decorators'' \<mapsto> StrSetVal {''property'', ''cached_property''}]
       = {''ignore_inline_noqa'', ''property_decorators''}
   \<and> ''--property-decorators'' \<in> opt_name ` set (add_options module_620 backend_demo [])
   \<and> ''--ignore-self-only-init'' \<notin> opt_name ` set (add_options module_620 backend_demo [])"
proof -
  note t = call_keywords_gated [OF args_620, of backend_demo]
  have f: "supports_ignore_inline_noqa module_620" "supports_property_decorators module_620"
    "\<not> supports_ignore_self_only_init module_620"
    by (simp_all add: module_620_def)
  from t f show ?thesis by (simp add: args_620 insert_commute)
qed

subsection \<open>Option binding\<close>

text \<open>
  Claim C7. \<open>parse_options\<close> stores \<open>None\<close> as the pattern when the raw string is absent
  or empty, and the compiled pattern when it is non-empty and \<open>re\<close> accepts it; the call
  of the delegate that follows passes just that value, so that an absent pattern hands
  no pattern to the delegate. When \<open>re\<close> rejects the raw string, its error leaves
  \<open>parse_options\<close> and no pattern is stored.
\<close>

theorem parse_options_ignore_decorators:
  assumes "parse_options re_valid M cls opts = (cls', exc)"
  shows "case opt_ignore_decorators opts of
           None \<Rightarrow>
             exc = None \<and> ignore_decorators cls' = Some None
             \<and> (\<exists>call. check_source_args M cls' self = Inr call
                    \<and> arg_ignore_decorators call = None)
         | Some s \<Rightarrow>
             if s = []
             then exc = None \<and> ignore_decorators cls' = Some None
                  \<and> (\<exists>call. check_source_args M cls' self = Inr call
                         \<and> arg_ignore_decorators call = None)
             else if re_valid s
             then exc = None \<and> ignore_decorators cls' = Some (Some (Regex s))
                  \<and> (\<exists>call. check_source_args M cls' self = Inr call
                         \<and> arg_ignore_decorators call = Some (Regex s))
             else exc = Some (ReError s) \<and> ignore_decorators cls' = ignore_decorators cls"
proof -
  have stored: "case opt_ignore_decorators opts of
           None \<Rightarrow> exc = None \<and> ignore_decorators cls' = Some None
         | Some s \<Rightarrow>
             if s = [] then exc = None \<and> ignore_decorators cls' = Some None
             else if re_valid s
             then exc = None \<and> ignore_decorators cls' = Some (Some (Regex s))
             else exc = Some (ReError s) \<and> ignore_decorators cls' = ignore_decorators cls"
    using assms
    by (auto simp: parse_options_def re_compile_def Let_def split: option.splits if_splits)
  have passed: "\<exists>call. check_source_args M cls' self = Inr call
          \<and> arg_ignore_decorators call
              = (case opt_ignore_decorators opts of
                   None \<Rightarrow> None
                 | Some s \<Rightarrow> if s = [] then None else Some (Regex s))"
    if "exc = None"
  proof -
    from assms that have "parse_options re_valid M cls opts = (cls', None)" by simp
    from parse_options_then_call [OF this, of self] show ?thesis by auto
  qed
  from stored passed show ?thesis
    by (cases "opt_ignore_decorators opts") (auto split: if_splits)
qed

theorem parse_options_ignore_decorators_witness:
  "snd (parse_options re_valid_demo module_620 unconfigured opts_demo) = None
   \<and> ignore_decorators (fst (parse_options re_valid_demo module_620 unconfigured opts_demo))
       = Some (Some (Regex ''overload''))
   \<and> snd (parse_options re_valid_demo module_620 unconfigured opts_empty) = None
   \<and> ignore_decorators (fst (parse_options re_valid_demo module_620 unconfigured opts_empty))
       = Some None
   \<and> snd (parse_options re_valid_demo module_620 unconfigured opts_absent) = None
   \<and> ignore_decorators (fst (parse_options re_valid_demo module_620 unconfigured opts_absent))
       = Some None
   \<and> snd (parse_options re_valid_demo module_620 unconfigured opts_malformed)
       = Some (ReError ''(x'')
   \<and> ignore_decorators (fst (parse_options re_valid_demo module_620 unconfigured opts_malformed))
       = None"
  using
    parse_options_ignore_decorators [OF surjective_pairing,
      of re_valid_demo module_620 unconfigured opts_demo hello]
    parse_options_ignore_decorators [OF surjective_pairing,
      of re_valid_demo module_620 unconfigured opts_empty hello]
    parse_options_ignore_decorators [OF surjective_pairing,
      of re_valid_demo module_620 unconfigured opts_absent hello]
    parse_options_ignore_decorators [OF surjective_pairing,
      of re_valid_demo module_620 unconfigured opts_malformed hello]
  by (simp add: opts_demo_def opts_empty_def opts_absent_def opts_malformed_def
      re_valid_demo_def unconfigured_def)

subsection \<open>Shape of the records\<close>

text \<open>
  Claim C8. Every record \<open>run\<close> yields is built from an error of \<open>_check_source\<close> as
  (line of the error, 0, code, a space and the short description, the checker type): the
  column is 0 in every record, whatever the configuration.
\<close>

theorem run_column_zero:
  "\<forall>r \<in> set (fst (run M B cls self)).
     \<exists>error. ErrorObj error \<in> set (fst (check_source M B cls self))
       \<and> r = (line error, 0, code error @ '' '' @ short_desc error, Pep257Checker_type)"
proof (cases "checked_codes B cls")
  case (Inl e)
  then show ?thesis by (simp add: run_def)
next
  case (Inr cc)
  show ?thesis
    by (auto simp: run_items [OF Inr] run_loop_filter errors_of_set report_tuple_def)
qed

theorem run_column_zero_witness:
  "fst (run module_legacy backend_demo cls_all hello)
     = [(2, 0, ''D103 Missing docstring in public function'', Pep257Checker_type),
        (7, 0, ''D203 1 blank line required before class docstring'', Pep257Checker_type)]
   \<and> (\<exists>error. ErrorObj error \<in> set (fst (check_source module_legacy backend_demo cls_all hello))
          \<and> (2, 0, ''D103 Missing docstring in public function'', Pep257Checker_type)
          = (line error, 0, code error @ '' '' @ short_desc error, Pep257Checker_type))"
proof -
  have r: "fst (run module_legacy backend_demo cls_all hello)
     = [(2, 0, ''D103 Missing docstring in public function'', Pep257Checker_type),
        (7, 0, ''D203 1 blank line required before class docstring'', Pep257Checker_type)]"
    by (simp add: run_demo_all report_tuple_def D103_def D203_def)
  have m: "(2, 0, ''D103 Missing docstring in public function'', Pep257Checker_type)
        \<in> set (fst (run module_legacy backend_demo cls_all hello))"
    unfolding r by simp
  from bspec [OF run_column_zero [of module_legacy backend_demo cls_all hello] m] r
  show ?thesis by blast
qed

subsection \<open>Determinism\<close>

text \<open>
  Claim C9. Take two runs, each with its own instance, its own delegate and its own
  module state. Let the two instances be made from the same file name and the same
  source lines (the trees may differ), under the same class configuration; let the
  module states have the same capability flags; and let the delegate behave the same in
  both runs, that is, give the same code set for the bound convention and the same
  answer to the call the plugin makes. Then the two runs yield the same records in the
  same order and end the same way. Nothing else of the delegate is assumed equal: the
  run depends on it through that one call and that one code set only, and it does
  depend on the answer (\<open>run_depends_on_delegate_answer\<close>).
\<close>

theorem run_deterministic:
  assumes flags: "same_flags M1 M2"
    and codes: "\<forall>c. convention cls = Some c
                  \<longrightarrow> map_of (conventions B1) c = map_of (conventions B2) c"
    and answer: "\<forall>call. check_source_args M1 cls (init tree1 fname lines) = Inr call
                   \<longrightarrow> checker_check_source B1 call = checker_check_source B2 call"
  shows "run M1 B1 cls (init tree1 fname lines) = run M2 B2 cls (init tree2 fname lines)"
proof -
  have c: "call_check_source M1 B1 cls (init tree1 fname lines)
             = call_check_source M2 B2 cls (init tree2 fname lines)"
    by (rule call_check_source_same [OF flags answer])
  have s: "check_source M1 B1 cls (init tree1 fname lines)
             = check_source M2 B2 cls (init tree2 fname lines)"
    unfolding check_source_def c by (rule refl)
  show ?thesis
    unfolding run_def s checked_codes_same [OF codes] by (rule refl)
qed

theorem run_deterministic_witness:
  "same_flags module_legacy module_511
   \<and> backend_demo \<noteq> backend_later
   \<and> run module_legacy backend_demo cls_pep257
         (init ''ast_a'' ''hello.py'' [''def hello_world():'', ''    pass''])
       = ([(2, 0, ''D103 Missing docstring in public function'', Pep257Checker_type)], None)
   \<and> run module_511 backend_later cls_pep257
         (init ''ast_b'' ''hello.py'' [''def hello_world():'', ''    pass''])
       = ([(2, 0, ''D103 Missing docstring in public function'', Pep257Checker_type)], None)"
proof -
  have flags: "same_flags module_legacy module_511"
    by (simp add: same_flags_def module_legacy_def module_511_def)
  have codes: "\<forall>c. convention cls_pep257 = Some c
                 \<longrightarrow> map_of (conventions backend_demo) c = map_of (conventions backend_later) c"
    by (simp add: cls_pep257_def backend_demo_def backend_later_def)
  have answer: "\<forall>call. check_source_args module_legacy cls_pep257
                   (init ''ast_a'' ''hello.py'' [''def hello_world():'', ''    pass'']) = Inr call
                 \<longrightarrow> checker_check_source backend_demo call
                     = checker_check_source backend_later call"
    by (simp add: check_source_args_def check_source_kwargs_def module_legacy_def
        cls_pep257_def init_def backend_demo_def backend_later_def)
  have differ: "backend_demo \<noteq> backend_later"
  proof
    assume "backend_demo = backend_later"
    then have "DEFAULT_PROPERTY_DECORATORS backend_demo = DEFAULT_PROPERTY_DECORATORS backend_later"
      by simp
    then show False by (simp add: backend_demo_def backend_later_def)
  qed
  from run_deterministic [OF flags codes answer, of "''ast_b''"] run_demo_first flags differ
  show ?thesis by simp
qed

subsection \<open>Missing attributes\<close>

text \<open>
  Claim C10. When the flag for property decorators is set and \<open>parse_options\<close> was never
  called, \<open>run\<close> yields no record and ends with the \<open>AttributeError\<close> for
  \<open>property_decorators\<close>: the exception is not turned into a \<open>D998\<close> or \<open>D999\<close> record.
\<close>

theorem unconfigured_property_decorators_raises:
  assumes "supports_property_decorators M"
  shows "run M B unconfigured self = ([], Some (AttributeError ''property_decorators''))"
  using assms
  by (simp add: run_def checked_codes_def unconfigured_def check_source_def
      call_check_source_def check_source_args_def check_source_kwargs_def)

theorem unconfigured_property_decorators_raises_witness:
  "supports_property_decorators module_620
   \<and> run module_620 backend_demo unconfigured hello
       = ([], Some (AttributeError ''property_decorators''))"
proof -
  have f: "supports_property_decorators module_620" by (simp add: module_620_def)
  from unconfigured_property_decorators_raises [OF f] f show ?thesis by simp
qed

end
